theory Spec2Isabelle
  imports Complex_Main "HOL-Library.Sublist"
begin

section \<open>CONSENSUS: fund deduplication and stock tally\<close>

text \<open>
  A shallow embedding of \<^verbatim>\<open>src/consensus_app.py\<close>: the name filter
  \<^verbatim>\<open>filter_similar_funds\<close>, the tally \<^verbatim>\<open>process_stock_appearances\<close>, the pipeline
  \<^verbatim>\<open>get_funds\<close>, the cached loader \<^verbatim>\<open>load_data\<close> and the button handler that calls it
  with the two module constants.

  A pandas frame is modelled as the list of its rows, in index order, each row a record
  with the frame's columns as fields. The column-less frame \<^verbatim>\<open>pd.DataFrame()\<close>, which the
  program only ever builds as an empty result, and a frame that has its columns and no rows
  are both the empty list. \<^verbatim>\<open>filter_similar_funds\<close> and \<^verbatim>\<open>process_stock_appearances\<close> read the
  columns Fund and Stocks and are modelled on frames that have them; \<^verbatim>\<open>get_funds\<close> never
  calls them on the column-less frame. Text shown in the page (\<^verbatim>\<open>st.warning\<close>, \<^verbatim>\<open>st.error\<close>, the
  spinner) is not modelled: it does not change what the functions return. The one-hour
  cache around \<^verbatim>\<open>load_data\<close> is modelled as an explicit store, passed in and returned, with
  the time of the call as a parameter.
\<close>

subsection \<open>Data\<close>

text \<open>One row of the frame built from \<^verbatim>\<open>fund_data\<close>: the columns Id, Fund, Return10A, Stocks.\<close>

record fund =
  Id :: string
  Fund :: string
  Return10A :: rat
  Stocks :: "string list"

text \<open>
  One row of the screener's JSON answer. A key that may be absent is an option:
  \<^verbatim>\<open>row.get('CategoryName', '')\<close> reads it with a default, \<^verbatim>\<open>row['SecId']\<close> raises KeyError
  when it is absent.
\<close>

record row =
  SecId :: "string option"
  LegalName :: "string option"
  CategoryName :: "string option"
  ReturnM120 :: "rat option"

text \<open>One line of the holdings frame of a fund: only the two columns the program reads.\<close>

record holding =
  country :: string
  ticker :: string

type_synonym headers = "(string \<times> string) list"

text \<open>What the two remote calls can raise; every such exception is caught in \<^verbatim>\<open>get_funds\<close>.\<close>

datatype py_error = KeyError string | RemoteError string

subsection \<open>The similarity score\<close>

text \<open>
  \<^verbatim>\<open>fuzz.ratio\<close> belongs to the library fuzzywuzzy, not to this repository, so the functions
  below take the score as a parameter \<open>ratio\<close>, called as the source calls it: the
  candidate first, the earlier name second. General statements hold for every \<open>ratio\<close>,
  with what they need of it as a hypothesis; at concrete inputs the score is \<open>fuzz_ratio\<close>.
\<close>

text \<open>
  Modelled from the spec: the library function \<^verbatim>\<open>fuzz.ratio\<close>, which is not under src/; the
  specification calls it "a normalized string-similarity score in [0,100]
  (edit-distance-based ratio)". The three definitions \<open>lcs\<close>, \<open>intr\<close> and \<open>fuzz_ratio\<close>
  follow the library: it answers 100 for equal strings, 0 when one string is empty, and
  otherwise rounds \<open>100 * 2 * M / T\<close> to an integer, where \<open>T\<close> is the sum of the two
  lengths and \<open>M\<close> the number of matched characters; with the edit-distance matcher \<open>M\<close>
  is the length of a longest common subsequence. Python's \<^verbatim>\<open>round\<close> rounds a half to the
  even neighbour; the quotient is computed here exactly rather than in floating point. The
  names used as concrete inputs below are a common prefix with one or two characters
  appended, equal names, or names without a common character, where the library's other
  matcher (difflib) counts the same \<open>M\<close> and no quotient falls on a half.
\<close>

fun lcs :: "'a list \<Rightarrow> 'a list \<Rightarrow> nat" where
  "lcs [] ys = 0"
| "lcs (x # xs) [] = 0"
| "lcs (x # xs) (y # ys) =
     (if x = y then Suc (lcs xs ys) else max (lcs (x # xs) ys) (lcs xs (y # ys)))"

definition intr :: "int \<Rightarrow> int \<Rightarrow> int" where
  \<comment> \<open>\<^verbatim>\<open>int(round(n / d))\<close> for \<open>0 < d\<close>\<close>
  "intr n d =
     (let q = n div d; r = n mod d
      in if 2 * r < d then q
         else if d < 2 * r then q + 1
         else if even q then q else q + 1)"

definition fuzz_ratio :: "string \<Rightarrow> string \<Rightarrow> int" where
  "fuzz_ratio s1 s2 =
     (if s1 = s2 then 100
      else if length s1 = 0 \<or> length s2 = 0 then 0
      else intr (100 * (2 * int (lcs s1 s2))) (int (length s1 + length s2)))"

subsection \<open>filter\_similar\_funds\<close>

text \<open>
  The inner loop: \<open>fund1\<close> against the names before it, in order, stopping at the first
  score above the threshold. The result is the flag \<^verbatim>\<open>keep\<close>.
\<close>

fun keep_loop :: "(string \<Rightarrow> string \<Rightarrow> int) \<Rightarrow> int \<Rightarrow> string \<Rightarrow> string list \<Rightarrow> bool" where
  "keep_loop ratio similarity_threshold fund1 [] = True"
| "keep_loop ratio similarity_threshold fund1 (fund2 # rest) =
     (if ratio fund1 fund2 > similarity_threshold then False
      else keep_loop ratio similarity_threshold fund1 rest)"

text \<open>
  The outer loop over \<^verbatim>\<open>enumerate(funds)\<close>. \<open>seen\<close> is the slice \<^verbatim>\<open>funds[:i]\<close>, every earlier
  name, and \<open>funds_to_keep\<close> the list built so far.
\<close>

fun funds_loop ::
  "(string \<Rightarrow> string \<Rightarrow> int) \<Rightarrow> int \<Rightarrow> string list \<Rightarrow> string list \<Rightarrow> string list \<Rightarrow> string list"
where
  "funds_loop ratio similarity_threshold seen funds_to_keep [] = funds_to_keep"
| "funds_loop ratio similarity_threshold seen funds_to_keep (fund1 # rest) =
     funds_loop ratio similarity_threshold (seen @ [fund1])
       (if keep_loop ratio similarity_threshold fund1 seen
        then funds_to_keep @ [fund1] else funds_to_keep)
       rest"

definition funds_to_keep :: "(string \<Rightarrow> string \<Rightarrow> int) \<Rightarrow> int \<Rightarrow> string list \<Rightarrow> string list" where
  "funds_to_keep ratio similarity_threshold funds =
     funds_loop ratio similarity_threshold [] [] funds"

text \<open>The returned frame: the rows whose name is in \<^verbatim>\<open>funds_to_keep\<close>, in frame order.\<close>

definition filter_similar_funds ::
  "(string \<Rightarrow> string \<Rightarrow> int) \<Rightarrow> int \<Rightarrow> fund list \<Rightarrow> fund list"
where
  "filter_similar_funds ratio similarity_threshold funds_df =
     filter (\<lambda>r. Fund r \<in> set (funds_to_keep ratio similarity_threshold (map Fund funds_df)))
       funds_df"

text \<open>
  The deduplicator as the specification words it (section 4.1): one pass in input order
  over the records, with the growing list of kept records, each candidate compared with
  the names of the kept records only.
\<close>

fun dedupe_spec_loop ::
  "(string \<Rightarrow> string \<Rightarrow> int) \<Rightarrow> int \<Rightarrow> fund list \<Rightarrow> fund list \<Rightarrow> fund list"
where
  "dedupe_spec_loop ratio threshold kept [] = kept"
| "dedupe_spec_loop ratio threshold kept (candidate # rest) =
     dedupe_spec_loop ratio threshold
       (if list_ex (\<lambda>k. ratio (Fund candidate) (Fund k) > threshold) kept
        then kept else kept @ [candidate])
       rest"

definition dedupe_spec :: "(string \<Rightarrow> string \<Rightarrow> int) \<Rightarrow> int \<Rightarrow> fund list \<Rightarrow> fund list" where
  "dedupe_spec ratio threshold records = dedupe_spec_loop ratio threshold [] records"

subsection \<open>process\_stock\_appearances\<close>

text \<open>The comprehension: the stock lists of the rows, empty ones skipped, flattened.\<close>

definition flatten_stocks :: "fund list \<Rightarrow> string list" where
  "flatten_stocks df = concat (filter (\<lambda>stocks. stocks \<noteq> []) (map Stocks df))"

text \<open>
  \<^verbatim>\<open>value_counts\<close>: one entry per distinct value with the number of its occurrences, the
  values in order of first appearance, then sorted by count, largest first. The sort is
  stable here; no statement below depends on the order among equal counts.
\<close>

fun bump :: "string \<Rightarrow> (string \<times> int) list \<Rightarrow> (string \<times> int) list" where
  "bump k [] = [(k, 1)]"
| "bump k ((k', c) # rest) =
     (if k = k' then (k', c + 1) # rest else (k', c) # bump k rest)"

definition value_counts :: "string list \<Rightarrow> (string \<times> int) list" where
  "value_counts xs = sort_key (\<lambda>(k, c). - c) (fold bump xs [])"

definition process_stock_appearances :: "fund list \<Rightarrow> int \<Rightarrow> (string \<times> int) list" where
  "process_stock_appearances df min_appearances =
     (let stocks = flatten_stocks df;
          stock_counts = value_counts stocks;
          stock_counts = (if ''GOOG'' \<in> fst ` set stock_counts
                          then filter (\<lambda>(k, c). k \<noteq> ''GOOG'') stock_counts
                          else stock_counts)
      in filter (\<lambda>(k, c). c \<ge> min_appearances) stock_counts)"

subsection \<open>get\_funds, load\_data and the refresh button\<close>

text \<open>The default values of the two keyword parameters, and the two module constants.\<close>

definition default_similarity_threshold :: int where
  "default_similarity_threshold = 85"

definition default_min_appearances :: int where
  "default_min_appearances = 4"

definition MIN_APPEARANCES :: int where
  "MIN_APPEARANCES = 6"

definition SIMILARITY_THRESHOLD :: int where
  "SIMILARITY_THRESHOLD = 85"

text \<open>\<^verbatim>\<open>'RV' in s\<close>: the first string occurs in the second as a contiguous block.\<close>

fun py_in :: "string \<Rightarrow> string \<Rightarrow> bool" where
  "py_in p [] = (p = [])"
| "py_in p (c # cs) = (prefix p (c # cs) \<or> py_in p cs)"

text \<open>
  The body of the loop over the rows of a page. \<open>None\<close> is a row that adds nothing to
  \<^verbatim>\<open>fund_data\<close>: the category has no \<^verbatim>\<open>RV\<close>, a key is missing, the holdings call raised, or
  the fund has no United States holding. \<open>equity_holdings\<close> stands for
  \<^verbatim>\<open>mstarpy.Funds(term=...).holdings(holdingType="equity")\<close>.
\<close>

definition fund_of_row :: "(string \<Rightarrow> py_error + holding list) \<Rightarrow> row \<Rightarrow> fund option" where
  "fund_of_row equity_holdings r =
     (if \<not> py_in ''RV'' (case CategoryName r of None \<Rightarrow> '''' | Some c \<Rightarrow> c) then None
      else case SecId r of
        None \<Rightarrow> None
      | Some sec_id \<Rightarrow>
          (case equity_holdings sec_id of
             Inl e \<Rightarrow> None
           | Inr holdings_df \<Rightarrow>
               (let us_stocks =
                      map ticker (take 10 (filter (\<lambda>h. country h = ''United States'') holdings_df))
                in if us_stocks \<noteq> [] then
                     (case (LegalName r, ReturnM120 r) of
                        (Some legal_name, Some return_m120) \<Rightarrow>
                          Some \<lparr>Id = sec_id, Fund = legal_name,
                                Return10A = return_m120, Stocks = us_stocks\<rparr>
                      | _ \<Rightarrow> None)
                   else None)))"

text \<open>
  The rows one page adds. \<open>get_morningstar_data\<close> stands for the remote call; its answer
  is the value under the key \<^verbatim>\<open>rows\<close> of the JSON, when there is one. A page whose call
  raises adds nothing.
\<close>

definition page_funds ::
  "(nat \<Rightarrow> headers \<Rightarrow> py_error + row list option) \<Rightarrow> (string \<Rightarrow> py_error + holding list) \<Rightarrow>
   headers \<Rightarrow> nat \<Rightarrow> fund list"
where
  "page_funds get_morningstar_data equity_holdings hdrs page =
     (case get_morningstar_data page hdrs of
        Inl e \<Rightarrow> []
      | Inr funds_json \<Rightarrow>
          List.map_filter (fund_of_row equity_holdings)
            (case funds_json of None \<Rightarrow> [] | Some rows \<Rightarrow> rows))"

definition fetch_fund_data ::
  "(nat \<Rightarrow> headers \<Rightarrow> py_error + row list option) \<Rightarrow> (string \<Rightarrow> py_error + holding list) \<Rightarrow>
   headers \<Rightarrow> fund list"
where
  "fetch_fund_data get_morningstar_data equity_holdings hdrs =
     concat (map (page_funds get_morningstar_data equity_holdings hdrs) [1..<3])"

definition get_funds ::
  "(string \<Rightarrow> string \<Rightarrow> int) \<Rightarrow> (nat \<Rightarrow> headers \<Rightarrow> py_error + row list option) \<Rightarrow>
   (string \<Rightarrow> py_error + holding list) \<Rightarrow> headers \<Rightarrow> (string \<times> int) list"
where
  "get_funds ratio get_morningstar_data equity_holdings hdrs =
     (let fund_data = fetch_fund_data get_morningstar_data equity_holdings hdrs
      in if fund_data = [] then []
         else let df_funds = filter_similar_funds ratio default_similarity_threshold fund_data
              in process_stock_appearances df_funds default_min_appearances)"

text \<open>
  The body of \<^verbatim>\<open>load_data\<close>, as written under the decorator. Its two first parameters occur
  nowhere in it. In the model \<open>get_funds\<close> raises nothing, so the \<^verbatim>\<open>except\<close> branch, which
  returns the empty frame as the \<^verbatim>\<open>df.empty\<close> branch does, has no counterpart.
\<close>

definition load_data_body ::
  "(string \<Rightarrow> string \<Rightarrow> int) \<Rightarrow> (nat \<Rightarrow> headers \<Rightarrow> py_error + row list option) \<Rightarrow>
   (string \<Rightarrow> py_error + holding list) \<Rightarrow> int \<Rightarrow> int \<Rightarrow> headers \<Rightarrow> (string \<times> int) list"
where
  "load_data_body ratio get_morningstar_data equity_holdings
     min_appearances similarity_threshold hdrs =
     (let df = get_funds ratio get_morningstar_data equity_holdings hdrs
      in if df = [] then [] else df)"

text \<open>
  The decorator \<^verbatim>\<open>@st.cache_data(ttl=3600)\<close>. The store is keyed by the values of the three
  arguments of the call; an entry holds the frame the body returned and the time, in
  seconds, at which it was stored, and answers calls made less than \<open>ttl\<close> seconds later.
  The remote data is no part of the key.
\<close>

type_synonym cache_key = "int \<times> int \<times> headers"

type_synonym cache = "cache_key \<rightharpoonup> nat \<times> (string \<times> int) list"

definition ttl :: nat where
  "ttl = 3600"

definition cache_lookup :: "cache \<Rightarrow> nat \<Rightarrow> cache_key \<Rightarrow> (string \<times> int) list option" where
  "cache_lookup c now key =
     (case c key of
        None \<Rightarrow> None
      | Some (stored, df) \<Rightarrow> if now < stored + ttl then Some df else None)"

text \<open>
  \<^verbatim>\<open>load_data\<close> as the program calls it: a stored frame on a hit, and on a miss the frame the
  body computes from the remote data of that moment, stored under the key of the call.
  The result is the frame and the store after the call.
\<close>

definition load_data ::
  "(string \<Rightarrow> string \<Rightarrow> int) \<Rightarrow> (nat \<Rightarrow> headers \<Rightarrow> py_error + row list option) \<Rightarrow>
   (string \<Rightarrow> py_error + holding list) \<Rightarrow> cache \<Rightarrow> nat \<Rightarrow> int \<Rightarrow> int \<Rightarrow> headers \<Rightarrow>
   (string \<times> int) list \<times> cache"
where
  "load_data ratio get_morningstar_data equity_holdings c now
     min_appearances similarity_threshold hdrs =
     (case cache_lookup c now (min_appearances, similarity_threshold, hdrs) of
        Some df \<Rightarrow> (df, c)
      | None \<Rightarrow>
          (let df = load_data_body ratio get_morningstar_data equity_holdings
                      min_appearances similarity_threshold hdrs
           in (df, c((min_appearances, similarity_threshold, hdrs) \<mapsto> (now, df)))))"

text \<open>
  The button handler: \<^verbatim>\<open>st.cache_data.clear()\<close> empties the store, then \<^verbatim>\<open>load_data\<close> is called
  with the two module constants. The first component is the table handed to
  \<^verbatim>\<open>st.dataframe\<close>, or \<open>None\<close> when the frame is empty and nothing is displayed; the second is
  the store the handler leaves behind.
\<close>

definition refresh ::
  "(string \<Rightarrow> string \<Rightarrow> int) \<Rightarrow> (nat \<Rightarrow> headers \<Rightarrow> py_error + row list option) \<Rightarrow>
   (string \<Rightarrow> py_error + holding list) \<Rightarrow> cache \<Rightarrow> nat \<Rightarrow> headers \<Rightarrow>
   (string \<times> int) list option \<times> cache"
where
  "refresh ratio get_morningstar_data equity_holdings c now hdrs =
     (let cleared = Map.empty;
          (df_stocks, c') =
            load_data ratio get_morningstar_data equity_holdings cleared now
              MIN_APPEARANCES SIMILARITY_THRESHOLD hdrs
      in (if df_stocks \<noteq> [] then Some df_stocks else None, c'))"

section \<open>Properties of the similarity score\<close>

lemma lcs_le_left: "lcs xs ys \<le> length xs"
  by (induction xs ys rule: lcs.induct) auto

lemma lcs_le_right: "lcs xs ys \<le> length ys"
  by (induction xs ys rule: lcs.induct) auto

lemma intr_bounds:
  assumes "0 \<le> n" "n \<le> 100 * d" "0 < d"
  shows "0 \<le> intr n d \<and> intr n d \<le> 100"
proof -
  have q0: "0 \<le> n div d" using assms by (simp add: pos_imp_zdiv_nonneg_iff)
  have q100: "n div d \<le> 100" using zdiv_mono1 [of n "100 * d" d] assms by simp
  have r0: "n mod d = 0" if "n div d = 100"
  proof -
    have "n = d * (n div d) + n mod d" by simp
    then have "n = 100 * d + n mod d" using that by simp
    moreover have "0 \<le> n mod d" using assms by simp
    ultimately show ?thesis using assms by linarith
  qed
  show ?thesis
  proof (cases "n div d = 100")
    case True
    then show ?thesis using r0 assms by (simp add: intr_def Let_def)
  next
    case False
    then have "n div d + 1 \<le> 100" using q100 by linarith
    then show ?thesis using q0 by (simp add: intr_def Let_def)
  qed
qed

lemma fuzz_ratio_range: "0 \<le> fuzz_ratio a b \<and> fuzz_ratio a b \<le> 100"
proof (cases "a = b \<or> a = [] \<or> b = []")
  case True
  then show ?thesis by (auto simp: fuzz_ratio_def)
next
  case False
  have "2 * int (lcs a b) \<le> int (length a + length b)"
    using lcs_le_left [of a b] lcs_le_right [of a b] by linarith
  moreover have "0 < int (length a + length b)" using False by (cases a) simp_all
  ultimately have "0 \<le> intr (100 * (2 * int (lcs a b))) (int (length a + length b)) \<and>
     intr (100 * (2 * int (lcs a b))) (int (length a + length b)) \<le> 100"
    by (intro intr_bounds) simp_all
  then show ?thesis using False by (simp add: fuzz_ratio_def)
qed

lemma fuzz_ratio_same: "fuzz_ratio a a = 100"
  by (simp add: fuzz_ratio_def)

section \<open>The name filter\<close>

subsection \<open>The loops, by index\<close>

lemma keep_loop_iff:
  "keep_loop ratio thr fund1 seen \<longleftrightarrow> (\<forall>fund2 \<in> set seen. ratio fund1 fund2 \<le> thr)"
  by (induction seen) auto

lemma funds_loop_index:
  "funds_loop ratio thr seen acc funds =
     acc @ map ((!) funds)
       (filter (\<lambda>i. keep_loop ratio thr (funds ! i) (seen @ take i funds)) [0..<length funds])"
proof (induction funds arbitrary: seen acc)
  case Nil
  then show ?case by simp
next
  case (Cons f fs)
  have upt: "[0..<length (f # fs)] = 0 # map Suc [0..<length fs]"
    by (simp add: upt_conv_Cons map_Suc_upt del: upt_Suc)
  show ?case
    unfolding upt
    by (simp add: Cons.IH filter_map o_def)
qed

lemma funds_to_keep_index:
  "funds_to_keep ratio thr funds =
     map ((!) funds) (filter (\<lambda>i. \<forall>j<i. ratio (funds ! i) (funds ! j) \<le> thr) [0..<length funds])"
proof -
  have "filter (\<lambda>i. keep_loop ratio thr (funds ! i) ([] @ take i funds)) [0..<length funds] =
        filter (\<lambda>i. \<forall>j<i. ratio (funds ! i) (funds ! j) \<le> thr) [0..<length funds]"
  proof (rule filter_cong [OF refl])
    fix i assume "i \<in> set [0..<length funds]"
    then have i: "i < length funds" by simp
    then show "keep_loop ratio thr (funds ! i) ([] @ take i funds) \<longleftrightarrow>
               (\<forall>j<i. ratio (funds ! i) (funds ! j) \<le> thr)"
      by (simp add: keep_loop_iff all_set_conv_all_nth)
  qed
  then show ?thesis
    by (simp add: funds_to_keep_def funds_loop_index)
qed

lemma name_kept_iff:
  "n \<in> set (funds_to_keep ratio thr funds) \<longleftrightarrow>
     (\<exists>i<length funds. funds ! i = n \<and> (\<forall>j<i. ratio n (funds ! j) \<le> thr))"
  by (auto simp: funds_to_keep_index)

lemma filter_similar_funds_index:
  "filter_similar_funds ratio thr df =
     map ((!) df)
       (filter (\<lambda>i. Fund (df ! i) \<in> set (funds_to_keep ratio thr (map Fund df))) [0..<length df])"
proof -
  have "filter (\<lambda>r. Fund r \<in> set (funds_to_keep ratio thr (map Fund df)))
          (map ((!) df) [0..<length df]) =
        map ((!) df)
          (filter (\<lambda>i. Fund (df ! i) \<in> set (funds_to_keep ratio thr (map Fund df)))
             [0..<length df])"
    by (simp only: filter_map o_def)
  then show ?thesis by (simp add: filter_similar_funds_def map_nth)
qed

text \<open>
  When no two rows share a name, a row stays exactly when its own name passed the inner
  loop: the rows of the result are the rows at the positions the loops kept.
\<close>

lemma distinct_names_positions:
  assumes "distinct (map Fund df)"
  shows "filter (\<lambda>i. Fund (df ! i) \<in> set (funds_to_keep ratio thr (map Fund df))) [0..<length df] =
         filter (\<lambda>i. \<forall>j<i. ratio (Fund (df ! i)) (Fund (df ! j)) \<le> thr) [0..<length df]"
proof (rule filter_cong [OF refl])
  fix i assume "i \<in> set [0..<length df]"
  then have i: "i < length df" by simp
  show "Fund (df ! i) \<in> set (funds_to_keep ratio thr (map Fund df)) \<longleftrightarrow>
        (\<forall>j<i. ratio (Fund (df ! i)) (Fund (df ! j)) \<le> thr)"
  proof
    assume "Fund (df ! i) \<in> set (funds_to_keep ratio thr (map Fund df))"
    then obtain k where k: "k < length df" "map Fund df ! k = Fund (df ! i)"
      "\<forall>j<k. ratio (Fund (df ! i)) (map Fund df ! j) \<le> thr"
      by (auto simp: name_kept_iff)
    have "map Fund df ! k = map Fund df ! i" using k i by simp
    moreover have "(map Fund df ! k = map Fund df ! i) = (k = i)"
      using assms by (rule nth_eq_iff_index_eq) (use k i in simp_all)
    ultimately have "k = i" by simp
    then show "\<forall>j<i. ratio (Fund (df ! i)) (Fund (df ! j)) \<le> thr"
      using k i by simp
  next
    assume "\<forall>j<i. ratio (Fund (df ! i)) (Fund (df ! j)) \<le> thr"
    then show "Fund (df ! i) \<in> set (funds_to_keep ratio thr (map Fund df))"
      using i by (auto simp: name_kept_iff intro!: exI [of _ i])
  qed
qed

subsection \<open>Which earlier names a candidate is compared with\<close>

text \<open>
  Claim C1 as the specification states it: a candidate is dropped if and only if its score
  with the name of some record already kept exceeds the threshold, the names of dropped
  records playing no role. That is the function \<open>dedupe_spec\<close>. The program differs: with
  threshold 85 and the names Alpha, AlphaX, AlphaXY, the second record is dropped (score 91
  with the first), and the third is dropped because of the second (score 92), although its
  score with the only kept record is 83.
\<close>

theorem dedupe_kept_only_counterexample:
  "filter_similar_funds fuzz_ratio 85
     [\<lparr>Id = ''F1'', Fund = ''Alpha'', Return10A = 12, Stocks = [''AAPL'']\<rparr>,
      \<lparr>Id = ''F2'', Fund = ''AlphaX'', Return10A = 11, Stocks = [''AAPL'']\<rparr>,
      \<lparr>Id = ''F3'', Fund = ''AlphaXY'', Return10A = 10, Stocks = [''AAPL'']\<rparr>]
   = [\<lparr>Id = ''F1'', Fund = ''Alpha'', Return10A = 12, Stocks = [''AAPL'']\<rparr>]
   \<and> dedupe_spec fuzz_ratio 85
     [\<lparr>Id = ''F1'', Fund = ''Alpha'', Return10A = 12, Stocks = [''AAPL'']\<rparr>,
      \<lparr>Id = ''F2'', Fund = ''AlphaX'', Return10A = 11, Stocks = [''AAPL'']\<rparr>,
      \<lparr>Id = ''F3'', Fund = ''AlphaXY'', Return10A = 10, Stocks = [''AAPL'']\<rparr>]
   = [\<lparr>Id = ''F1'', Fund = ''Alpha'', Return10A = 12, Stocks = [''AAPL'']\<rparr>,
      \<lparr>Id = ''F3'', Fund = ''AlphaXY'', Return10A = 10, Stocks = [''AAPL'']\<rparr>]
   \<and> fuzz_ratio ''AlphaX'' ''Alpha'' = 91
   \<and> fuzz_ratio ''AlphaXY'' ''AlphaX'' = 92
   \<and> fuzz_ratio ''AlphaXY'' ''Alpha'' = 83"
  by code_simp

text \<open>
  Claim C1, amended: for records with pairwise different names and any threshold, a
  candidate is dropped if and only if its score with the name of some earlier record of the
  input, kept or dropped, exceeds the threshold. The result is the list of the records at
  the positions \<open>i\<close> whose name scores at most the threshold against every name at a
  position \<open>j < i\<close>.
\<close>

theorem dedupe_compares_all_earlier:
  assumes "distinct (map Fund df)"
  shows "filter_similar_funds ratio thr df =
     map ((!) df)
       (filter (\<lambda>i. \<forall>j<i. ratio (Fund (df ! i)) (Fund (df ! j)) \<le> thr) [0..<length df])"
  by (simp only: filter_similar_funds_index distinct_names_positions [OF assms])

theorem dedupe_compares_all_earlier_witness:
  "distinct (map Fund
     [\<lparr>Id = ''F1'', Fund = ''Alpha'', Return10A = 12, Stocks = [''AAPL'']\<rparr>,
      \<lparr>Id = ''F2'', Fund = ''AlphaX'', Return10A = 11, Stocks = [''AAPL'']\<rparr>,
      \<lparr>Id = ''F3'', Fund = ''AlphaXY'', Return10A = 10, Stocks = [''AAPL'']\<rparr>])
   \<and> filter_similar_funds fuzz_ratio 85
     [\<lparr>Id = ''F1'', Fund = ''Alpha'', Return10A = 12, Stocks = [''AAPL'']\<rparr>,
      \<lparr>Id = ''F2'', Fund = ''AlphaX'', Return10A = 11, Stocks = [''AAPL'']\<rparr>,
      \<lparr>Id = ''F3'', Fund = ''AlphaXY'', Return10A = 10, Stocks = [''AAPL'']\<rparr>]
   = [\<lparr>Id = ''F1'', Fund = ''Alpha'', Return10A = 12, Stocks = [''AAPL'']\<rparr>]"
proof -
  let ?df = "[\<lparr>Id = ''F1'', Fund = ''Alpha'', Return10A = 12, Stocks = [''AAPL'']\<rparr>,
      \<lparr>Id = ''F2'', Fund = ''AlphaX'', Return10A = 11, Stocks = [''AAPL'']\<rparr>,
      \<lparr>Id = ''F3'', Fund = ''AlphaXY'', Return10A = 10, Stocks = [''AAPL'']\<rparr>]"
  have d: "distinct (map Fund ?df)" by simp
  have "filter_similar_funds fuzz_ratio 85 ?df =
        map ((!) ?df)
          (filter (\<lambda>i. \<forall>j<i. fuzz_ratio (Fund (?df ! i)) (Fund (?df ! j)) \<le> 85)
             [0..<length ?df])"
    using d by (rule dedupe_compares_all_earlier)
  also have "\<dots> = [\<lparr>Id = ''F1'', Fund = ''Alpha'', Return10A = 12, Stocks = [''AAPL'']\<rparr>]"
    by code_simp
  finally show ?thesis using d by simp
qed

subsection \<open>Rows that share a name\<close>

text \<open>
  Claim C3: for every pair of distinct records kept by the deduplicator, the similarity
  score between their names is at most the threshold. The program breaks it on two rows
  with the same name. With threshold 85 the inner loop finds the score 100 for the second
  row and leaves \<^verbatim>\<open>keep\<close> false, so the name enters \<^verbatim>\<open>funds_to_keep\<close> once; the final
  selection \<^verbatim>\<open>isin(funds_to_keep)\<close> is by name and returns both rows.
\<close>

theorem duplicate_names_both_kept:
  "filter_similar_funds fuzz_ratio 85
     [\<lparr>Id = ''F1'', Fund = ''Alpha'', Return10A = 12, Stocks = [''AAPL'']\<rparr>,
      \<lparr>Id = ''F2'', Fund = ''Alpha'', Return10A = 11, Stocks = [''MSFT'']\<rparr>]
   = [\<lparr>Id = ''F1'', Fund = ''Alpha'', Return10A = 12, Stocks = [''AAPL'']\<rparr>,
      \<lparr>Id = ''F2'', Fund = ''Alpha'', Return10A = 11, Stocks = [''MSFT'']\<rparr>]
   \<and> funds_to_keep fuzz_ratio 85 [''Alpha'', ''Alpha''] = [''Alpha'']
   \<and> keep_loop fuzz_ratio 85 ''Alpha'' [''Alpha''] = False
   \<and> fuzz_ratio ''Alpha'' ''Alpha'' = 100"
  by code_simp

subsection \<open>Threshold 100\<close>

text \<open>
  Claim C4 as the specification states it: with threshold 100 the records whose name is an
  exact duplicate of an earlier name are removed. The program removes none: the score of
  two equal names is 100, which is not greater than 100, so the duplicate's name is put on
  the list again and both rows are returned.
\<close>

theorem threshold_100_duplicate_counterexample:
  "filter_similar_funds fuzz_ratio 100
     [\<lparr>Id = ''F1'', Fund = ''Alpha'', Return10A = 12, Stocks = [''AAPL'']\<rparr>,
      \<lparr>Id = ''F2'', Fund = ''Alpha'', Return10A = 11, Stocks = [''MSFT'']\<rparr>]
   = [\<lparr>Id = ''F1'', Fund = ''Alpha'', Return10A = 12, Stocks = [''AAPL'']\<rparr>,
      \<lparr>Id = ''F2'', Fund = ''Alpha'', Return10A = 11, Stocks = [''MSFT'']\<rparr>]
   \<and> funds_to_keep fuzz_ratio 100 [''Alpha'', ''Alpha''] = [''Alpha'', ''Alpha'']
   \<and> keep_loop fuzz_ratio 100 ''Alpha'' [''Alpha''] = True"
  by code_simp

text \<open>
  Claim C4, amended: when the threshold is 100 and no score is above 100, the deduplicator
  removes no record at all, exact duplicates included: the result is the input.
\<close>

theorem threshold_100_keeps_all:
  assumes "\<forall>a b. ratio a b \<le> 100"
  shows "filter_similar_funds ratio 100 df = df"
proof -
  have "filter (\<lambda>i. Fund (df ! i) \<in> set (funds_to_keep ratio 100 (map Fund df)))
          [0..<length df] = [0..<length df]"
    unfolding filter_id_conv
  proof
    fix i assume "i \<in> set [0..<length df]"
    then have "i < length df" by simp
    then show "Fund (df ! i) \<in> set (funds_to_keep ratio 100 (map Fund df))"
      using assms by (auto simp: name_kept_iff intro!: exI [of _ i])
  qed
  then show ?thesis by (simp add: filter_similar_funds_index map_nth)
qed

theorem threshold_100_keeps_all_witness:
  "(\<forall>a b. fuzz_ratio a b \<le> 100)
   \<and> filter_similar_funds fuzz_ratio 100
     [\<lparr>Id = ''F1'', Fund = ''Alpha'', Return10A = 12, Stocks = [''AAPL'']\<rparr>,
      \<lparr>Id = ''F2'', Fund = ''AlphaX'', Return10A = 11, Stocks = [''AAPL'']\<rparr>,
      \<lparr>Id = ''F2'', Fund = ''Alpha'', Return10A = 11, Stocks = [''MSFT'']\<rparr>]
   = [\<lparr>Id = ''F1'', Fund = ''Alpha'', Return10A = 12, Stocks = [''AAPL'']\<rparr>,
      \<lparr>Id = ''F2'', Fund = ''AlphaX'', Return10A = 11, Stocks = [''AAPL'']\<rparr>,
      \<lparr>Id = ''F2'', Fund = ''Alpha'', Return10A = 11, Stocks = [''MSFT'']\<rparr>]"
proof -
  have h: "\<forall>a b. fuzz_ratio a b \<le> 100" by (simp add: fuzz_ratio_range)
  from h show ?thesis by (simp add: threshold_100_keeps_all [OF h])
qed

subsection \<open>Threshold 0\<close>

text \<open>
  Claim C5 as the specification states it: with threshold 0 at most one record survives.
  The test is \<open>score > 0\<close>, and two names without a common character score 0: both
  records stay.
\<close>

theorem threshold_0_two_survive_counterexample:
  "filter_similar_funds fuzz_ratio 0
     [\<lparr>Id = ''F1'', Fund = ''Alpha'', Return10A = 12, Stocks = [''AAPL'']\<rparr>,
      \<lparr>Id = ''F2'', Fund = ''Bond'', Return10A = 11, Stocks = [''MSFT'']\<rparr>]
   = [\<lparr>Id = ''F1'', Fund = ''Alpha'', Return10A = 12, Stocks = [''AAPL'']\<rparr>,
      \<lparr>Id = ''F2'', Fund = ''Bond'', Return10A = 11, Stocks = [''MSFT'']\<rparr>]
   \<and> fuzz_ratio ''Bond'' ''Alpha'' = 0
   \<and> length (filter_similar_funds fuzz_ratio 0
       [\<lparr>Id = ''F1'', Fund = ''Alpha'', Return10A = 12, Stocks = [''AAPL'']\<rparr>,
        \<lparr>Id = ''F2'', Fund = ''Bond'', Return10A = 11, Stocks = [''MSFT'']\<rparr>]) = 2"
  by code_simp

text \<open>
  Claim C5, amended: when the threshold is 0 and no score is negative, the deduplicator
  keeps, out of records with pairwise different names, exactly those whose name scores 0
  against the name of every earlier record of the input. The first record always stays,
  and so does every later one that shares nothing with the names before it.
\<close>

theorem threshold_0_keeps_zero_score:
  assumes "\<forall>a b. 0 \<le> ratio a b" and "distinct (map Fund df)"
  shows "filter_similar_funds ratio 0 df =
     map ((!) df)
       (filter (\<lambda>i. \<forall>j<i. ratio (Fund (df ! i)) (Fund (df ! j)) = 0) [0..<length df])"
proof -
  have "(ratio a b \<le> 0) = (ratio a b = 0)" for a b
    using assms(1) by (simp add: order_antisym_conv)
  then show ?thesis
    by (simp only: filter_similar_funds_index distinct_names_positions [OF assms(2)])
qed

theorem threshold_0_keeps_zero_score_witness:
  "(\<forall>a b. 0 \<le> fuzz_ratio a b)
   \<and> distinct (map Fund
     [\<lparr>Id = ''F1'', Fund = ''Alpha'', Return10A = 12, Stocks = [''AAPL'']\<rparr>,
      \<lparr>Id = ''F2'', Fund = ''Bond'', Return10A = 11, Stocks = [''MSFT'']\<rparr>,
      \<lparr>Id = ''F3'', Fund = ''Bonds'', Return10A = 10, Stocks = [''AAPL'']\<rparr>])
   \<and> filter_similar_funds fuzz_ratio 0
     [\<lparr>Id = ''F1'', Fund = ''Alpha'', Return10A = 12, Stocks = [''AAPL'']\<rparr>,
      \<lparr>Id = ''F2'', Fund = ''Bond'', Return10A = 11, Stocks = [''MSFT'']\<rparr>,
      \<lparr>Id = ''F3'', Fund = ''Bonds'', Return10A = 10, Stocks = [''AAPL'']\<rparr>]
   = [\<lparr>Id = ''F1'', Fund = ''Alpha'', Return10A = 12, Stocks = [''AAPL'']\<rparr>,
      \<lparr>Id = ''F2'', Fund = ''Bond'', Return10A = 11, Stocks = [''MSFT'']\<rparr>]"
proof -
  let ?df = "[\<lparr>Id = ''F1'', Fund = ''Alpha'', Return10A = 12, Stocks = [''AAPL'']\<rparr>,
      \<lparr>Id = ''F2'', Fund = ''Bond'', Return10A = 11, Stocks = [''MSFT'']\<rparr>,
      \<lparr>Id = ''F3'', Fund = ''Bonds'', Return10A = 10, Stocks = [''AAPL'']\<rparr>]"
  have h: "\<forall>a b. 0 \<le> fuzz_ratio a b" by (simp add: fuzz_ratio_range)
  have d: "distinct (map Fund ?df)" by simp
  have "filter_similar_funds fuzz_ratio 0 ?df =
        map ((!) ?df)
          (filter (\<lambda>i. \<forall>j<i. fuzz_ratio (Fund (?df ! i)) (Fund (?df ! j)) = 0)
             [0..<length ?df])"
    using h d by (rule threshold_0_keeps_zero_score)
  also have "\<dots> = [\<lparr>Id = ''F1'', Fund = ''Alpha'', Return10A = 12, Stocks = [''AAPL'']\<rparr>,
      \<lparr>Id = ''F2'', Fund = ''Bond'', Return10A = 11, Stocks = [''MSFT'']\<rparr>]"
    by code_simp
  finally show ?thesis using h d by simp
qed

subsection \<open>The result is a subsequence of the input\<close>

text \<open>
  Claim C6: for every input and threshold the output of the deduplicator is a subsequence
  of its input: every output record occurs in the input, the relative order is kept, and
  the empty input (a frame with its columns and no rows) gives the empty output.
\<close>

theorem dedupe_subsequence:
  "subseq (filter_similar_funds ratio thr df) df
   \<and> set (filter_similar_funds ratio thr df) \<subseteq> set df
   \<and> filter_similar_funds ratio thr [] = []"
  by (simp add: filter_similar_funds_def)

theorem dedupe_subsequence_witness:
  "subseq
     [\<lparr>Id = ''F1'', Fund = ''Alpha'', Return10A = 12, Stocks = [''AAPL'']\<rparr>,
      \<lparr>Id = ''F3'', Fund = ''Bond'', Return10A = 10, Stocks = [''MSFT'']\<rparr>]
     [\<lparr>Id = ''F1'', Fund = ''Alpha'', Return10A = 12, Stocks = [''AAPL'']\<rparr>,
      \<lparr>Id = ''F2'', Fund = ''AlphaX'', Return10A = 11, Stocks = [''AAPL'']\<rparr>,
      \<lparr>Id = ''F3'', Fund = ''Bond'', Return10A = 10, Stocks = [''MSFT'']\<rparr>]
   \<and> filter_similar_funds fuzz_ratio 85
     [\<lparr>Id = ''F1'', Fund = ''Alpha'', Return10A = 12, Stocks = [''AAPL'']\<rparr>,
      \<lparr>Id = ''F2'', Fund = ''AlphaX'', Return10A = 11, Stocks = [''AAPL'']\<rparr>,
      \<lparr>Id = ''F3'', Fund = ''Bond'', Return10A = 10, Stocks = [''MSFT'']\<rparr>]
   = [\<lparr>Id = ''F1'', Fund = ''Alpha'', Return10A = 12, Stocks = [''AAPL'']\<rparr>,
      \<lparr>Id = ''F3'', Fund = ''Bond'', Return10A = 10, Stocks = [''MSFT'']\<rparr>]"
proof -
  let ?df = "[\<lparr>Id = ''F1'', Fund = ''Alpha'', Return10A = 12, Stocks = [''AAPL'']\<rparr>,
      \<lparr>Id = ''F2'', Fund = ''AlphaX'', Return10A = 11, Stocks = [''AAPL'']\<rparr>,
      \<lparr>Id = ''F3'', Fund = ''Bond'', Return10A = 10, Stocks = [''MSFT'']\<rparr>]"
  have v: "filter_similar_funds fuzz_ratio 85 ?df =
     [\<lparr>Id = ''F1'', Fund = ''Alpha'', Return10A = 12, Stocks = [''AAPL'']\<rparr>,
      \<lparr>Id = ''F3'', Fund = ''Bond'', Return10A = 10, Stocks = [''MSFT'']\<rparr>]"
    by code_simp
  have s: "subseq (filter_similar_funds fuzz_ratio 85 ?df) ?df"
    using dedupe_subsequence [of fuzz_ratio 85 ?df] by (rule conjunct1)
  from s v show ?thesis by simp
qed

section \<open>The tally\<close>

subsection \<open>What value\_counts holds\<close>

lemma map_of_bump:
  "map_of (bump k acc) =
     (map_of acc)(k \<mapsto> (case map_of acc k of None \<Rightarrow> 1 | Some c \<Rightarrow> c + 1))"
  by (induction acc) (auto simp: fun_upd_twist)

lemma keys_bump:
  "map fst (bump k acc) = (if k \<in> fst ` set acc then map fst acc else map fst acc @ [k])"
  by (induction acc) (auto split: if_splits)

lemma distinct_bump: "distinct (map fst acc) \<Longrightarrow> distinct (map fst (bump k acc))"
  by (simp add: keys_bump)

text \<open>
  The counting loop keeps one entry per value met so far, holding the number of times it
  was met. \<open>seen\<close> is the part of the list already counted into \<open>acc\<close>.
\<close>

lemma fold_bump_counts:
  assumes "distinct (map fst acc)"
    and "\<And>k. map_of acc k = (if k \<in> set seen then Some (int (count_list seen k)) else None)"
  shows "distinct (map fst (fold bump xs acc)) \<and>
         (\<forall>k. map_of (fold bump xs acc) k =
            (if k \<in> set (seen @ xs) then Some (int (count_list (seen @ xs) k)) else None))"
  using assms
proof (induction xs arbitrary: acc seen)
  case Nil
  then show ?case by simp
next
  case (Cons x xs)
  have d: "distinct (map fst (bump x acc))"
    using Cons.prems(1) by (rule distinct_bump)
  have m: "map_of (bump x acc) k =
      (if k \<in> set (seen @ [x]) then Some (int (count_list (seen @ [x]) k)) else None)" for k
    by (simp add: map_of_bump Cons.prems(2))
  from Cons.IH [OF d m] show ?case by simp
qed

lemma value_counts_entry:
  "(k, c) \<in> set (value_counts xs) \<longleftrightarrow> k \<in> set xs \<and> c = int (count_list xs k)"
proof -
  have inv: "distinct (map fst (fold bump xs [])) \<and>
        (\<forall>k. map_of (fold bump xs []) k =
            (if k \<in> set ([] @ xs) then Some (int (count_list ([] @ xs) k)) else None))"
    by (rule fold_bump_counts) simp_all
  then have d: "distinct (map fst (fold bump xs []))"
    and m: "map_of (fold bump xs []) k =
            (if k \<in> set xs then Some (int (count_list xs k)) else None)"
    by simp_all
  have "(k, c) \<in> set (value_counts xs) \<longleftrightarrow> (k, c) \<in> set (fold bump xs [])"
    by (simp add: value_counts_def)
  also have "\<dots> \<longleftrightarrow> map_of (fold bump xs []) k = Some c"
    using d by simp
  also have "\<dots> \<longleftrightarrow> k \<in> set xs \<and> c = int (count_list xs k)"
    unfolding m by auto
  finally show ?thesis .
qed

lemma value_counts_keys: "k \<in> fst ` set (value_counts xs) \<longleftrightarrow> k \<in> set xs"
proof
  assume "k \<in> fst ` set (value_counts xs)"
  then obtain c where "(k, c) \<in> set (value_counts xs)" by auto
  then show "k \<in> set xs" by (simp add: value_counts_entry)
next
  assume "k \<in> set xs"
  then have "(k, int (count_list xs k)) \<in> set (value_counts xs)"
    by (simp add: value_counts_entry)
  then show "k \<in> fst ` set (value_counts xs)" by force
qed

text \<open>
  The entries of the tally: the tickers of the flattened stock lists other than GOOG,
  each with the number of its occurrences, when that number reaches the minimum.
\<close>

lemma tally_entry:
  "(k, c) \<in> set (process_stock_appearances df m) \<longleftrightarrow>
     k \<in> set (flatten_stocks df) \<and> k \<noteq> ''GOOG'' \<and>
     c = int (count_list (flatten_stocks df) k) \<and> m \<le> c"
  by (auto simp: process_stock_appearances_def Let_def value_counts_entry value_counts_keys)

subsection \<open>The excluded ticker\<close>

text \<open>
  Claim C7: for every input the ticker GOOG is never a key of the tally, even when it
  occurs in the stock lists of the records, however often it occurs.
\<close>

theorem goog_never_in_tally:
  "''GOOG'' \<notin> fst ` set (process_stock_appearances df min_appearances)"
  by (auto simp: tally_entry)

theorem goog_never_in_tally_witness:
  "count_list (flatten_stocks
     [\<lparr>Id = ''F1'', Fund = ''Alpha'', Return10A = 12, Stocks = [''AAPL'', ''GOOG'', ''MSFT'']\<rparr>,
      \<lparr>Id = ''F2'', Fund = ''Bravo'', Return10A = 11, Stocks = [''GOOG'', ''AAPL'']\<rparr>,
      \<lparr>Id = ''F3'', Fund = ''Delta'', Return10A = 10, Stocks = [''GOOG'']\<rparr>]) ''GOOG'' = 3
   \<and> ''GOOG'' \<notin> fst ` set (process_stock_appearances
     [\<lparr>Id = ''F1'', Fund = ''Alpha'', Return10A = 12, Stocks = [''AAPL'', ''GOOG'', ''MSFT'']\<rparr>,
      \<lparr>Id = ''F2'', Fund = ''Bravo'', Return10A = 11, Stocks = [''GOOG'', ''AAPL'']\<rparr>,
      \<lparr>Id = ''F3'', Fund = ''Delta'', Return10A = 10, Stocks = [''GOOG'']\<rparr>] 2)
   \<and> process_stock_appearances
     [\<lparr>Id = ''F1'', Fund = ''Alpha'', Return10A = 12, Stocks = [''AAPL'', ''GOOG'', ''MSFT'']\<rparr>,
      \<lparr>Id = ''F2'', Fund = ''Bravo'', Return10A = 11, Stocks = [''GOOG'', ''AAPL'']\<rparr>,
      \<lparr>Id = ''F3'', Fund = ''Delta'', Return10A = 10, Stocks = [''GOOG'']\<rparr>] 2
   = [(''AAPL'', 2)]"
proof -
  let ?df = "[\<lparr>Id = ''F1'', Fund = ''Alpha'', Return10A = 12, Stocks = [''AAPL'', ''GOOG'', ''MSFT'']\<rparr>,
      \<lparr>Id = ''F2'', Fund = ''Bravo'', Return10A = 11, Stocks = [''GOOG'', ''AAPL'']\<rparr>,
      \<lparr>Id = ''F3'', Fund = ''Delta'', Return10A = 10, Stocks = [''GOOG'']\<rparr>]"
  have g: "''GOOG'' \<notin> fst ` set (process_stock_appearances ?df 2)"
    by (rule goog_never_in_tally)
  have c: "count_list (flatten_stocks ?df) ''GOOG'' = 3" by code_simp
  have v: "process_stock_appearances ?df 2 = [(''AAPL'', 2)]" by code_simp
  from c g v show ?thesis by (intro conjI)
qed

subsection \<open>The minimum number of appearances\<close>

text \<open>
  Claim C8: for every input and every minimum, every ticker present in the output of the
  tally has an appearance count greater than or equal to the minimum. The count held in the
  output is the number of occurrences of the ticker in the flattened stock lists.
\<close>

theorem tally_counts_at_least_min:
  assumes "(k, c) \<in> set (process_stock_appearances df min_appearances)"
  shows "min_appearances \<le> c \<and> c = int (count_list (flatten_stocks df) k)"
  using assms by (simp add: tally_entry)

theorem tally_counts_at_least_min_witness:
  "(''AAPL'', 2) \<in> set (process_stock_appearances
     [\<lparr>Id = ''F1'', Fund = ''Alpha'', Return10A = 12, Stocks = [''AAPL'', ''GOOG'', ''MSFT'']\<rparr>,
      \<lparr>Id = ''F2'', Fund = ''Bravo'', Return10A = 11, Stocks = [''GOOG'', ''AAPL'']\<rparr>,
      \<lparr>Id = ''F3'', Fund = ''Delta'', Return10A = 10, Stocks = [''GOOG'']\<rparr>] 2)
   \<and> (2::int) \<le> 2
   \<and> (2::int) = int (count_list (flatten_stocks
     [\<lparr>Id = ''F1'', Fund = ''Alpha'', Return10A = 12, Stocks = [''AAPL'', ''GOOG'', ''MSFT'']\<rparr>,
      \<lparr>Id = ''F2'', Fund = ''Bravo'', Return10A = 11, Stocks = [''GOOG'', ''AAPL'']\<rparr>,
      \<lparr>Id = ''F3'', Fund = ''Delta'', Return10A = 10, Stocks = [''GOOG'']\<rparr>]) ''AAPL'')"
proof -
  let ?df = "[\<lparr>Id = ''F1'', Fund = ''Alpha'', Return10A = 12, Stocks = [''AAPL'', ''GOOG'', ''MSFT'']\<rparr>,
      \<lparr>Id = ''F2'', Fund = ''Bravo'', Return10A = 11, Stocks = [''GOOG'', ''AAPL'']\<rparr>,
      \<lparr>Id = ''F3'', Fund = ''Delta'', Return10A = 10, Stocks = [''GOOG'']\<rparr>]"
  have h: "(''AAPL'', 2) \<in> set (process_stock_appearances ?df 2)" by code_simp
  from h tally_counts_at_least_min [OF h] show ?thesis by (intro conjI) simp_all
qed

subsection \<open>The cached loader and the button handler\<close>

lemma load_data_miss:
  assumes "cache_lookup c now (m, s, hdrs) = None"
  shows "load_data ratio get_morningstar_data equity_holdings c now m s hdrs =
     (load_data_body ratio get_morningstar_data equity_holdings m s hdrs,
      c((m, s, hdrs) \<mapsto>
        (now, load_data_body ratio get_morningstar_data equity_holdings m s hdrs)))"
  using assms by (simp add: load_data_def Let_def)

lemma load_data_hit:
  assumes "cache_lookup c now (m, s, hdrs) = Some df"
  shows "load_data ratio get_morningstar_data equity_holdings c now m s hdrs = (df, c)"
  using assms by (simp add: load_data_def)

lemma load_data_body_eq:
  "load_data_body ratio get_morningstar_data equity_holdings m s hdrs =
     get_funds ratio get_morningstar_data equity_holdings hdrs"
  by (simp add: load_data_body_def Let_def)

text \<open>After \<^verbatim>\<open>st.cache_data.clear()\<close> the call in the handler is a miss, whatever the store held.\<close>

lemma refresh_displays:
  "fst (refresh ratio get_morningstar_data equity_holdings c now hdrs) =
     (let df_stocks = get_funds ratio get_morningstar_data equity_holdings hdrs
      in if df_stocks \<noteq> [] then Some df_stocks else None)"
proof -
  have "cache_lookup Map.empty now (MIN_APPEARANCES, SIMILARITY_THRESHOLD, hdrs) = None"
    by (simp add: cache_lookup_def)
  then show ?thesis
    by (simp add: refresh_def load_data_miss load_data_body_eq Let_def)
qed

subsection \<open>No qualifying ticker\<close>

text \<open>
  Claim C9: when there is no qualifying ticker, the result is the empty mapping, returned
  as a normal value. The tally of a frame without rows is empty; the tally of a frame in
  which every ticker other than GOOG occurs fewer times than the minimum is empty; when no
  fund could be fetched, \<^verbatim>\<open>get_funds\<close> returns the empty frame without calling the tally; and
  whenever \<^verbatim>\<open>get_funds\<close> returns the empty frame the button handler displays no table,
  whatever the store held before and whatever the time. The
  functions of the model are total: none of these cases has an error branch, as the source
  has no raise on them for a frame that has its columns.
\<close>

theorem tally_empty_result:
  "process_stock_appearances [] min_appearances = []
   \<and> ((\<forall>k \<in> set (flatten_stocks df). k \<noteq> ''GOOG'' \<longrightarrow>
          int (count_list (flatten_stocks df) k) < min_appearances) \<longrightarrow>
       process_stock_appearances df min_appearances = [])
   \<and> (fetch_fund_data get_morningstar_data equity_holdings hdrs = [] \<longrightarrow>
       get_funds ratio get_morningstar_data equity_holdings hdrs = [])
   \<and> (get_funds ratio get_morningstar_data equity_holdings hdrs = [] \<longrightarrow>
       fst (refresh ratio get_morningstar_data equity_holdings c now hdrs) = None)"
proof (intro conjI impI)
  show "process_stock_appearances [] min_appearances = []"
    by (simp add: process_stock_appearances_def flatten_stocks_def value_counts_def)
next
  assume low: "\<forall>k \<in> set (flatten_stocks df). k \<noteq> ''GOOG'' \<longrightarrow>
      int (count_list (flatten_stocks df) k) < min_appearances"
  have "set (process_stock_appearances df min_appearances) = {}"
  proof (rule equals0I)
    fix x assume x: "x \<in> set (process_stock_appearances df min_appearances)"
    obtain k c where "x = (k, c)" by (cases x)
    with x have "k \<in> set (flatten_stocks df)" "k \<noteq> ''GOOG''"
      "min_appearances \<le> int (count_list (flatten_stocks df) k)"
      by (simp_all add: tally_entry)
    with low show False by fastforce
  qed
  then show "process_stock_appearances df min_appearances = []" by simp
next
  assume "fetch_fund_data get_morningstar_data equity_holdings hdrs = []"
  then show "get_funds ratio get_morningstar_data equity_holdings hdrs = []"
    by (simp add: get_funds_def)
next
  assume "get_funds ratio get_morningstar_data equity_holdings hdrs = []"
  then show "fst (refresh ratio get_morningstar_data equity_holdings c now hdrs) = None"
    by (simp add: refresh_displays)
qed

theorem tally_empty_result_witness:
  "process_stock_appearances
     [\<lparr>Id = ''F1'', Fund = ''Alpha'', Return10A = 12, Stocks = [''AAPL'', ''GOOG'', ''MSFT'']\<rparr>,
      \<lparr>Id = ''F2'', Fund = ''Bravo'', Return10A = 11, Stocks = [''GOOG'', ''AAPL'']\<rparr>,
      \<lparr>Id = ''F3'', Fund = ''Delta'', Return10A = 10, Stocks = [''GOOG'']\<rparr>] 3
   = []
   \<and> get_funds fuzz_ratio (\<lambda>page hdrs. Inl (RemoteError ''timeout''))
       (\<lambda>sec_id. Inl (RemoteError ''timeout'')) [] = []
   \<and> fst (refresh fuzz_ratio (\<lambda>page hdrs. Inl (RemoteError ''timeout''))
       (\<lambda>sec_id. Inl (RemoteError ''timeout'')) Map.empty 0 []) = None"
proof -
  let ?df = "[\<lparr>Id = ''F1'', Fund = ''Alpha'', Return10A = 12, Stocks = [''AAPL'', ''GOOG'', ''MSFT'']\<rparr>,
      \<lparr>Id = ''F2'', Fund = ''Bravo'', Return10A = 11, Stocks = [''GOOG'', ''AAPL'']\<rparr>,
      \<lparr>Id = ''F3'', Fund = ''Delta'', Return10A = 10, Stocks = [''GOOG'']\<rparr>]"
  let ?g = "\<lambda>(page::nat) (hdrs::headers). (Inl (RemoteError ''timeout'') :: py_error + row list option)"
  let ?e = "\<lambda>sec_id::string. (Inl (RemoteError ''timeout'') :: py_error + holding list)"
  have low: "\<forall>k \<in> set (flatten_stocks ?df). k \<noteq> ''GOOG'' \<longrightarrow>
      int (count_list (flatten_stocks ?df) k) < 3"
    by code_simp
  have none: "fetch_fund_data ?g ?e [] = []" by code_simp
  note t = tally_empty_result [of 3 ?df ?g ?e "[]" fuzz_ratio Map.empty 0]
  from t low have "process_stock_appearances ?df 3 = []" by blast
  moreover from t none have g: "get_funds fuzz_ratio ?g ?e [] = []" by blast
  moreover from t g have "fst (refresh fuzz_ratio ?g ?e Map.empty 0 []) = None" by blast
  ultimately show ?thesis by blast
qed

section \<open>The pipeline and the configured thresholds\<close>

text \<open>
  Claim C10 as stated: the arguments \<^verbatim>\<open>min_appearances\<close> and \<^verbatim>\<open>similarity_threshold\<close> of
  \<^verbatim>\<open>load_data\<close> have no effect on its result; two calls with the same headers and the same
  remote data return the same frame. The cache breaks it: the two arguments are part of
  the key. A first call at time 0 with the arguments 6 and 85, the remote service
  answering, stores the frame with AAPL. At time 10 the remote service fails. On that one
  store, with the same headers and the same remote data, the call with 6 and 85 hits the
  stored frame and the call with 5 and 85 misses and computes the empty frame.
\<close>

theorem load_data_cache_key_counterexample:
  "fst (load_data fuzz_ratio
     (\<lambda>page hdrs. Inl (RemoteError ''timeout''))
     (\<lambda>sec_id. Inl (RemoteError ''timeout''))
     (snd (load_data fuzz_ratio
        (\<lambda>page hdrs. if page = 1 then Inr (Some
         [\<lparr>SecId = Some ''F1'', LegalName = Some ''Alpha'',
            CategoryName = Some ''RV USA'', ReturnM120 = Some 14\<rparr>,
          \<lparr>SecId = Some ''F2'', LegalName = Some ''Bravo'',
            CategoryName = Some ''RV USA'', ReturnM120 = Some 13\<rparr>,
          \<lparr>SecId = Some ''F3'', LegalName = Some ''Delta'',
            CategoryName = Some ''RV USA'', ReturnM120 = Some 12\<rparr>,
          \<lparr>SecId = Some ''F4'', LegalName = Some ''Omega'',
            CategoryName = Some ''RV USA'', ReturnM120 = Some 11\<rparr>])
       else Inr (Some []))
     (\<lambda>sec_id. Inr [\<lparr>country = ''United States'', ticker = ''AAPL''\<rparr>,
                     \<lparr>country = ''France'', ticker = ''MC''\<rparr>])
        Map.empty 0 6 85 []))
     10 6 85 [])
   = [(''AAPL'', 4)]
   \<and> fst (load_data fuzz_ratio
     (\<lambda>page hdrs. Inl (RemoteError ''timeout''))
     (\<lambda>sec_id. Inl (RemoteError ''timeout''))
     (snd (load_data fuzz_ratio
        (\<lambda>page hdrs. if page = 1 then Inr (Some
         [\<lparr>SecId = Some ''F1'', LegalName = Some ''Alpha'',
            CategoryName = Some ''RV USA'', ReturnM120 = Some 14\<rparr>,
          \<lparr>SecId = Some ''F2'', LegalName = Some ''Bravo'',
            CategoryName = Some ''RV USA'', ReturnM120 = Some 13\<rparr>,
          \<lparr>SecId = Some ''F3'', LegalName = Some ''Delta'',
            CategoryName = Some ''RV USA'', ReturnM120 = Some 12\<rparr>,
          \<lparr>SecId = Some ''F4'', LegalName = Some ''Omega'',
            CategoryName = Some ''RV USA'', ReturnM120 = Some 11\<rparr>])
       else Inr (Some []))
     (\<lambda>sec_id. Inr [\<lparr>country = ''United States'', ticker = ''AAPL''\<rparr>,
                     \<lparr>country = ''France'', ticker = ''MC''\<rparr>])
        Map.empty 0 6 85 []))
     10 5 85 [])
   = []"
  by code_simp

text \<open>
  Claim C10, amended: on calls that miss the cache (the store holds no entry younger than
  one hour under the key of the call, as right after \<^verbatim>\<open>st.cache_data.clear()\<close> in the button
  handler) the arguments \<^verbatim>\<open>min_appearances\<close> and \<^verbatim>\<open>similarity_threshold\<close> of \<^verbatim>\<open>load_data\<close> have
  no effect on the frame it returns. For the same headers and the same remote data any two
  values of them give the same frame, whatever the two stores and times, because the body
  calls \<^verbatim>\<open>get_funds\<close>, which calls the filter and the tally without them, with their
  built-in defaults 85 and 4.
\<close>

theorem load_data_miss_ignores_thresholds:
  assumes "cache_lookup c1 t1 (m1, s1, hdrs) = None"
    and "cache_lookup c2 t2 (m2, s2, hdrs) = None"
  shows "fst (load_data ratio get_morningstar_data equity_holdings c1 t1 m1 s1 hdrs) =
         fst (load_data ratio get_morningstar_data equity_holdings c2 t2 m2 s2 hdrs)
   \<and> fst (load_data ratio get_morningstar_data equity_holdings c1 t1 m1 s1 hdrs) =
     (let fund_data = fetch_fund_data get_morningstar_data equity_holdings hdrs
      in if fund_data = [] then []
         else process_stock_appearances (filter_similar_funds ratio 85 fund_data) 4)"
proof -
  have body: "load_data_body ratio get_morningstar_data equity_holdings m s hdrs =
     (let fund_data = fetch_fund_data get_morningstar_data equity_holdings hdrs
      in if fund_data = [] then []
         else process_stock_appearances (filter_similar_funds ratio 85 fund_data) 4)" for m s
    by (simp add: load_data_body_def get_funds_def Let_def
        default_similarity_threshold_def default_min_appearances_def)
  have "fst (load_data ratio get_morningstar_data equity_holdings c1 t1 m1 s1 hdrs) =
        load_data_body ratio get_morningstar_data equity_holdings m1 s1 hdrs"
    by (simp add: load_data_miss [OF assms(1)])
  moreover
  have "fst (load_data ratio get_morningstar_data equity_holdings c2 t2 m2 s2 hdrs) =
        load_data_body ratio get_morningstar_data equity_holdings m2 s2 hdrs"
    by (simp add: load_data_miss [OF assms(2)])
  ultimately show ?thesis by (simp only: body)
qed

text \<open>
  The witness: the handler's call on the cleared store at time 0, then a call with the
  arguments 1 and 0 five seconds later on the store the first call left. The second call
  misses, since its key differs, and returns the same frame.
\<close>

theorem load_data_miss_ignores_thresholds_witness:
  "fst (load_data fuzz_ratio
     (\<lambda>page hdrs. if page = 1 then Inr (Some
         [\<lparr>SecId = Some ''F1'', LegalName = Some ''Alpha'',
            CategoryName = Some ''RV USA'', ReturnM120 = Some 14\<rparr>,
          \<lparr>SecId = Some ''F2'', LegalName = Some ''Bravo'',
            CategoryName = Some ''RV USA'', ReturnM120 = Some 13\<rparr>,
          \<lparr>SecId = Some ''F3'', LegalName = Some ''Delta'',
            CategoryName = Some ''RV USA'', ReturnM120 = Some 12\<rparr>,
          \<lparr>SecId = Some ''F4'', LegalName = Some ''Omega'',
            CategoryName = Some ''RV USA'', ReturnM120 = Some 11\<rparr>])
       else Inr (Some []))
     (\<lambda>sec_id. Inr [\<lparr>country = ''United States'', ticker = ''AAPL''\<rparr>,
                     \<lparr>country = ''France'', ticker = ''MC''\<rparr>])
     Map.empty 0 6 85 [])
   = [(''AAPL'', 4)]
   \<and> fst (load_data fuzz_ratio
     (\<lambda>page hdrs. if page = 1 then Inr (Some
         [\<lparr>SecId = Some ''F1'', LegalName = Some ''Alpha'',
            CategoryName = Some ''RV USA'', ReturnM120 = Some 14\<rparr>,
          \<lparr>SecId = Some ''F2'', LegalName = Some ''Bravo'',
            CategoryName = Some ''RV USA'', ReturnM120 = Some 13\<rparr>,
          \<lparr>SecId = Some ''F3'', LegalName = Some ''Delta'',
            CategoryName = Some ''RV USA'', ReturnM120 = Some 12\<rparr>,
          \<lparr>SecId = Some ''F4'', LegalName = Some ''Omega'',
            CategoryName = Some ''RV USA'', ReturnM120 = Some 11\<rparr>])
       else Inr (Some []))
     (\<lambda>sec_id. Inr [\<lparr>country = ''United States'', ticker = ''AAPL''\<rparr>,
                     \<lparr>country = ''France'', ticker = ''MC''\<rparr>])
     (snd (load_data fuzz_ratio
        (\<lambda>page hdrs. if page = 1 then Inr (Some
         [\<lparr>SecId = Some ''F1'', LegalName = Some ''Alpha'',
            CategoryName = Some ''RV USA'', ReturnM120 = Some 14\<rparr>,
          \<lparr>SecId = Some ''F2'', LegalName = Some ''Bravo'',
            CategoryName = Some ''RV USA'', ReturnM120 = Some 13\<rparr>,
          \<lparr>SecId = Some ''F3'', LegalName = Some ''Delta'',
            CategoryName = Some ''RV USA'', ReturnM120 = Some 12\<rparr>,
          \<lparr>SecId = Some ''F4'', LegalName = Some ''Omega'',
            CategoryName = Some ''RV USA'', ReturnM120 = Some 11\<rparr>])
       else Inr (Some []))
     (\<lambda>sec_id. Inr [\<lparr>country = ''United States'', ticker = ''AAPL''\<rparr>,
                     \<lparr>country = ''France'', ticker = ''MC''\<rparr>])
        Map.empty 0 6 85 []))
     5 1 0 [])
   = [(''AAPL'', 4)]"
proof -
  let ?g = "\<lambda>(page::nat) (hdrs::headers). if page = 1 then Inr (Some
         [\<lparr>SecId = Some ''F1'', LegalName = Some ''Alpha'',
            CategoryName = Some ''RV USA'', ReturnM120 = Some 14\<rparr>,
          \<lparr>SecId = Some ''F2'', LegalName = Some ''Bravo'',
            CategoryName = Some ''RV USA'', ReturnM120 = Some 13\<rparr>,
          \<lparr>SecId = Some ''F3'', LegalName = Some ''Delta'',
            CategoryName = Some ''RV USA'', ReturnM120 = Some 12\<rparr>,
          \<lparr>SecId = Some ''F4'', LegalName = Some ''Omega'',
            CategoryName = Some ''RV USA'', ReturnM120 = Some 11\<rparr>])
       else (Inr (Some []) :: py_error + row list option)"
  let ?e = "\<lambda>sec_id::string. (Inr [\<lparr>country = ''United States'', ticker = ''AAPL''\<rparr>,
                     \<lparr>country = ''France'', ticker = ''MC''\<rparr>] :: py_error + holding list)"
  let ?c = "snd (load_data fuzz_ratio ?g ?e Map.empty 0 6 85 [])"
  have m1: "cache_lookup Map.empty 0 (6, 85, ([]::headers)) = None"
    by (simp add: cache_lookup_def)
  have m2: "cache_lookup ?c 5 (1, 0, ([]::headers)) = None" by code_simp
  have v: "fst (load_data fuzz_ratio ?g ?e Map.empty 0 6 85 []) = [(''AAPL'', 4)]"
    by code_simp
  have "fst (load_data fuzz_ratio ?g ?e Map.empty 0 6 85 []) =
        fst (load_data fuzz_ratio ?g ?e ?c 5 1 0 [])"
    using load_data_miss_ignores_thresholds [OF m1 m2, of fuzz_ratio ?g ?e]
    by (rule conjunct1)
  with v show ?thesis by simp
qed

text \<open>
  Claim C2: the minimum appearance threshold of the pipeline is 6, so that after a refresh
  with the configured values every displayed ticker has a count of at least 6. The program
  breaks it: \<^verbatim>\<open>MIN_APPEARANCES = 6\<close> is passed to \<^verbatim>\<open>load_data\<close> and never reaches the tally,
  which runs with its default 4. With four funds of unlike names that each hold AAPL, the
  displayed table shows AAPL with the count 4, whatever the store held before the handler
  cleared it and whatever the time.
\<close>

theorem refresh_shows_count_below_six:
  "fst (refresh fuzz_ratio
     (\<lambda>page hdrs. if page = 1 then Inr (Some
         [\<lparr>SecId = Some ''F1'', LegalName = Some ''Alpha'',
            CategoryName = Some ''RV USA'', ReturnM120 = Some 14\<rparr>,
          \<lparr>SecId = Some ''F2'', LegalName = Some ''Bravo'',
            CategoryName = Some ''RV USA'', ReturnM120 = Some 13\<rparr>,
          \<lparr>SecId = Some ''F3'', LegalName = Some ''Delta'',
            CategoryName = Some ''RV USA'', ReturnM120 = Some 12\<rparr>,
          \<lparr>SecId = Some ''F4'', LegalName = Some ''Omega'',
            CategoryName = Some ''RV USA'', ReturnM120 = Some 11\<rparr>])
       else Inr (Some []))
     (\<lambda>sec_id. Inr [\<lparr>country = ''United States'', ticker = ''AAPL''\<rparr>,
                     \<lparr>country = ''France'', ticker = ''MC''\<rparr>])
     c now [])
   = Some [(''AAPL'', 4)]
   \<and> MIN_APPEARANCES = 6"
  unfolding refresh_displays by code_simp

end
